theory Spec2Isabelle
  imports Main
begin

section \<open>Values\<close>

text \<open>
  JavaScript values as the data layer sees them: plain data. Numbers are integers here;
  fractional numbers do not occur in the properties below.
\<close>

datatype jsval =
    JUndefined
  | JNull
  | JBool bool
  | JNum int
  | JStr string
  | JArr "jsval list"
  | JObj "(string \<times> jsval) list"

text \<open>A stored primitive: the storage engine holds text, integers and null.\<close>

datatype sqlv = SNull | SInt int | SText string

datatype err =
    RangeError
  | TypeError
  | D1_TYPE_ERROR
  | D1_ERROR string

section \<open>Type transformers\<close>

subsection \<open>Documents: \<open>json.transformer.ts\<close>\<close>

text \<open>
  \<open>JSON.stringify\<close> and \<open>JSON.parse\<close> belong to the runtime, not to the repository: they
  are parameters. \<open>stringify v = None\<close> and \<open>parse s = None\<close> stand for a thrown exception.
  The result of \<open>to\<close> is the stored text, \<open>None\<close> for storage null.
\<close>

definition jsonTransformer_to :: "(jsval \<Rightarrow> string option) \<Rightarrow> jsval \<Rightarrow> string option" where
  "jsonTransformer_to stringify v =
     (if v = JNull \<or> v = JUndefined then None
      else (case stringify v of Some s \<Rightarrow> Some s | None \<Rightarrow> None))"

definition jsonTransformer_from :: "(string \<Rightarrow> jsval option) \<Rightarrow> string option \<Rightarrow> jsval" where
  "jsonTransformer_from parse stored =
     (case stored of
        None \<Rightarrow> JNull
      | Some s \<Rightarrow> (case parse s of Some v \<Rightarrow> v | None \<Rightarrow> JNull))"

subsection \<open>Lists: \<open>array.transformer.ts\<close>\<close>

text \<open>
  In \<open>to\<close> the coercion of a non-array, \<open>JSON.stringify([value])\<close>, is outside the
  \<open>try\<close> block, so an exception there reaches the caller.
\<close>

definition arrayTransformer_to :: "(jsval \<Rightarrow> string option) \<Rightarrow> jsval \<Rightarrow> err + string option" where
  "arrayTransformer_to stringify v =
     (if v = JNull \<or> v = JUndefined then Inr None
      else (case v of
              JArr xs \<Rightarrow> (case stringify v of Some s \<Rightarrow> Inr (Some s) | None \<Rightarrow> Inr None)
            | _ \<Rightarrow> (case stringify (JArr [v]) of Some s \<Rightarrow> Inr (Some s) | None \<Rightarrow> Inl TypeError)))"

definition arrayTransformer_from :: "(string \<Rightarrow> jsval option) \<Rightarrow> string option \<Rightarrow> jsval list" where
  "arrayTransformer_from parse stored =
     (case stored of
        None \<Rightarrow> []
      | Some s \<Rightarrow>
          (case parse s of
             None \<Rightarrow> []
           | Some (JArr xs) \<Rightarrow> xs
           | Some v \<Rightarrow> [v]))"

subsection \<open>Timestamps: \<open>timestamp.transformer.ts\<close>\<close>

text \<open>
  A \<open>Date\<close> is its time value in milliseconds, \<open>None\<close> for an invalid date. The runtime's
  \<open>Date.prototype.toISOString\<close> (on a valid date) and the parser behind \<open>new Date(string)\<close>
  are parameters; \<open>dateParse s = None\<close> is an invalid date.
\<close>

datatype tsval = TsNull | TsDate "int option" | TsString string | TsOther jsval

definition timestampTransformer_to ::
  "(int \<Rightarrow> string) \<Rightarrow> (string \<Rightarrow> int option) \<Rightarrow> tsval \<Rightarrow> err + string option" where
  "timestampTransformer_to toISOString dateParse v =
     (case v of
        TsNull \<Rightarrow> Inr None
      | TsDate d \<Rightarrow> (case d of None \<Rightarrow> Inl RangeError | Some t \<Rightarrow> Inr (Some (toISOString t)))
      | TsString s \<Rightarrow>
          (case dateParse s of
             None \<Rightarrow> Inr (Some s)
           | Some t \<Rightarrow> Inr (Some (toISOString t)))
      | TsOther x \<Rightarrow> Inr None)"

text \<open>The result of \<open>from\<close>: \<open>None\<close> is \<open>null\<close>, \<open>Some t\<close> the valid date with time value \<open>t\<close>.\<close>

definition timestampTransformer_from :: "(string \<Rightarrow> int option) \<Rightarrow> string option \<Rightarrow> int option" where
  "timestampTransformer_from dateParse stored =
     (case stored of
        None \<Rightarrow> None
      | Some s \<Rightarrow> (case dateParse s of None \<Rightarrow> None | Some t \<Rightarrow> Some t))"

subsection \<open>Booleans: \<open>boolean.transformer.ts\<close>\<close>

definition toLowerCase_char :: "char \<Rightarrow> char" where
  "toLowerCase_char c =
     (if of_char c \<ge> (65::nat) \<and> of_char c \<le> (90::nat) then char_of (of_char c + (32::nat)) else c)"

definition toLowerCase :: "string \<Rightarrow> string" where
  "toLowerCase s = map toLowerCase_char s"

definition booleanTransformer_to :: "bool option \<Rightarrow> int option" where
  "booleanTransformer_to v = (case v of None \<Rightarrow> None | Some b \<Rightarrow> Some (if b then 1 else 0))"

definition booleanTransformer_from :: "sqlv \<Rightarrow> bool option" where
  "booleanTransformer_from v =
     (case v of
        SNull \<Rightarrow> None
      | SInt n \<Rightarrow> Some (n = 1)
      | SText s \<Rightarrow> Some (s = ''1'' \<or> toLowerCase s = ''true''))"

text \<open>What the engine stores for the result of \<open>booleanTransformer.to\<close>.\<close>

definition stored_int :: "int option \<Rightarrow> sqlv" where
  "stored_int v = (case v of None \<Rightarrow> SNull | Some n \<Rightarrow> SInt n)"

text \<open>
  A runtime table for worked examples: the values of \<open>JSON.parse\<close>, \<open>JSON.stringify\<close>,
  \<open>new Date\<close> and \<open>toISOString\<close> at the few arguments the examples use.
\<close>

definition sample_stringify :: "jsval \<Rightarrow> string option" where
  "sample_stringify v =
     (if v = JArr [] then Some ''[]''
      else if v = JObj [(''city'', JStr ''Paris'')] then Some ''{\"city\":\"Paris\"}''
      else if v = JNum 5 then Some ''5''
      else if v = JArr [JNum 5] then Some ''[5]''
      else None)"

definition sample_parse :: "string \<Rightarrow> jsval option" where
  "sample_parse s =
     (if s = ''[]'' then Some (JArr [])
      else if s = ''{\"city\":\"Paris\"}'' then Some (JObj [(''city'', JStr ''Paris'')])
      else if s = ''5'' then Some (JNum 5)
      else if s = ''[5]'' then Some (JArr [JNum 5])
      else None)"

definition sample_toISOString :: "int \<Rightarrow> string" where
  "sample_toISOString t = (if t = 0 then ''1970-01-01T00:00:00.000Z'' else ''2024-01-01T00:00:00.000Z'')"

definition sample_dateParse :: "string \<Rightarrow> int option" where
  "sample_dateParse s =
     (if s = ''1970-01-01T00:00:00.000Z'' then Some 0
      else if s = ''2024-01-01T00:00:00.000Z'' then Some 1704067200000
      else None)"

text \<open>Deserialising what was just serialised: the composition the round-trip law is about.\<close>

definition array_roundtrip ::
  "(jsval \<Rightarrow> string option) \<Rightarrow> (string \<Rightarrow> jsval option) \<Rightarrow> jsval \<Rightarrow> err + jsval list" where
  "array_roundtrip stringify parse v =
     (case arrayTransformer_to stringify v of
        Inl e \<Rightarrow> Inl e
      | Inr stored \<Rightarrow> Inr (arrayTransformer_from parse stored))"

definition timestamp_roundtrip ::
  "(int \<Rightarrow> string) \<Rightarrow> (string \<Rightarrow> int option) \<Rightarrow> tsval \<Rightarrow> err + int option" where
  "timestamp_roundtrip toISOString dateParse v =
     (case timestampTransformer_to toISOString dateParse v of
        Inl e \<Rightarrow> Inl e
      | Inr stored \<Rightarrow> Inr (timestampTransformer_from dateParse stored))"

section \<open>Text helpers\<close>

text \<open>\<open>Array.prototype.join\<close> on strings.\<close>

fun join :: "string \<Rightarrow> string list \<Rightarrow> string" where
  "join sep [] = []"
| "join sep [x] = x"
| "join sep (x # y # ys) = x @ sep @ join sep (y # ys)"

text \<open>Decimal digits of a number, as a template literal prints it.\<close>

fun nat_digits :: "nat \<Rightarrow> nat \<Rightarrow> string" where
  "nat_digits 0 n = []"
| "nat_digits (Suc fuel) n =
     (if n < 10 then [char_of (48 + n)]
      else nat_digits fuel (n div 10) @ [char_of (48 + n mod 10)])"

definition nat_str :: "nat \<Rightarrow> string" where
  "nat_str n = nat_digits (Suc n) n"

definition int_str :: "int \<Rightarrow> string" where
  "int_str i = (if i < 0 then CHR ''-'' # nat_str (nat (- i)) else nat_str (nat i))"

text \<open>The characters the generated SQL is made of.\<close>

definition dquote :: char where "dquote = CHR 0x22"
definition squote :: char where "squote = CHR 0x27"
definition backslash :: char where "backslash = CHR 0x5C"
definition newline :: char where "newline = CHR 0x0A"

text \<open>A name between double quotes, as the templates write \<open>"${field}"\<close>.\<close>

definition quoted :: "string \<Rightarrow> string" where
  "quoted f = dquote # f @ [dquote]"

text \<open>
  \<open>String(v)\<close>, the conversion a template literal applies to an interpolated value.
\<close>

fun js_String :: "jsval \<Rightarrow> string" where
  "js_String JUndefined = ''undefined''"
| "js_String JNull = ''null''"
| "js_String (JBool b) = (if b then ''true'' else ''false'')"
| "js_String (JNum n) = int_str n"
| "js_String (JStr s) = s"
| "js_String (JArr xs) =
     join '','' (map (\<lambda>x. if x = JNull \<or> x = JUndefined then [] else js_String x) xs)"
| "js_String (JObj kvs) = ''[object Object]''"

text \<open>Truthiness of a value in a condition.\<close>

fun truthy :: "jsval \<Rightarrow> bool" where
  "truthy JUndefined = False"
| "truthy JNull = False"
| "truthy (JBool b) = b"
| "truthy (JNum n) = (n \<noteq> 0)"
| "truthy (JStr s) = (s \<noteq> [])"
| "truthy (JArr xs) = True"
| "truthy (JObj kvs) = True"

text \<open>Property access \<open>v.k\<close> on plain data: \<open>undefined\<close> where there is no such key.\<close>

fun js_get :: "jsval \<Rightarrow> string \<Rightarrow> jsval" where
  "js_get (JObj kvs) k = (case map_of kvs k of Some v \<Rightarrow> v | None \<Rightarrow> JUndefined)"
| "js_get v k = JUndefined"

text \<open>The operator \<open>k in v\<close> for an object; an array has none of the operator keys.\<close>

fun js_has :: "jsval \<Rightarrow> string \<Rightarrow> bool" where
  "js_has (JObj kvs) k = (map_of kvs k \<noteq> None)"
| "js_has v k = False"

section \<open>LIKE helpers: \<open>like.helper.ts\<close>\<close>


definition likeNoCase :: "string \<Rightarrow> string \<Rightarrow> string" where
  "likeNoCase column paramPlaceholder = column @ '' LIKE '' @ paramPlaceholder @ '' COLLATE NOCASE''"




definition equalsNoCase :: "string \<Rightarrow> string \<Rightarrow> string" where
  "equalsNoCase column paramPlaceholder = ''LOWER('' @ column @ '') = LOWER('' @ paramPlaceholder @ '')''"

section \<open>Query builder: \<open>d1-query-builder.ts\<close>\<close>

subsection \<open>WHERE\<close>

text \<open>
  The four operator blocks of the loop body, each an \<open>if\<close> that pushes one condition on
  \<open>conditions\<close> and its values on \<open>params\<close>.
\<close>

definition push_eq :: "string \<Rightarrow> jsval \<Rightarrow> string list \<times> jsval list \<Rightarrow> string list \<times> jsval list" where
  "push_eq field v acc =
     (if js_has v ''eq''
      then (fst acc @ [quoted field @ '' = ?''], snd acc @ [js_get v ''eq''])
      else acc)"

definition push_neq :: "string \<Rightarrow> jsval \<Rightarrow> string list \<times> jsval list \<Rightarrow> string list \<times> jsval list" where
  "push_neq field v acc =
     (if js_has v ''neq''
      then (fst acc @ [quoted field @ '' != ?''], snd acc @ [js_get v ''neq''])
      else acc)"

definition push_in :: "string \<Rightarrow> jsval \<Rightarrow> string list \<times> jsval list \<Rightarrow> string list \<times> jsval list" where
  "push_in field v acc =
     (if js_has v ''in'' then
        (case js_get v ''in'' of
           JArr xs \<Rightarrow>
             (fst acc @ [quoted field @ '' IN ('' @ join '', '' (map (\<lambda>x. ''?'') xs) @ '')''],
              snd acc @ xs)
         | _ \<Rightarrow> acc)
      else acc)"

definition push_like :: "string \<Rightarrow> jsval \<Rightarrow> string list \<times> jsval list \<Rightarrow> string list \<times> jsval list" where
  "push_like field v acc =
     (if js_has v ''like''
      then (fst acc @ [quoted field @ '' LIKE ? COLLATE NOCASE''],
            snd acc @ [JStr (''%'' @ js_String (js_get v ''like'') @ ''%'')])
      else acc)"

definition is_object :: "jsval \<Rightarrow> bool" where
  "is_object v = (case v of JObj kvs \<Rightarrow> True | JArr xs \<Rightarrow> True | _ \<Rightarrow> False)"

text \<open>
  One pass of the loop over \<open>Object.entries(filter)\<close>: what the entry pushes on
  \<open>conditions\<close> and on \<open>params\<close>.
\<close>

definition filter_entry ::
  "string \<times> jsval \<Rightarrow> string list \<times> jsval list \<Rightarrow> string list \<times> jsval list" where
  "filter_entry e acc =
     (let field = fst e; v = snd e in
      if v = JNull then (fst acc @ [quoted field @ '' IS NULL''], snd acc)
      else if is_object v then
        push_like field v (push_in field v (push_neq field v (push_eq field v acc)))
      else (fst acc @ [quoted field @ '' = ?''], snd acc @ [v]))"

definition buildWhereClause ::
  "(string \<times> jsval) list option \<Rightarrow> string \<Rightarrow> string \<times> jsval list" where
  "buildWhereClause fltr workspaceId =
     (let conditions = [''workspaceId = ?'', ''('' @ quoted ''deletedAt'' @ '' IS NULL)''];
          params = [JStr workspaceId]
      in case fltr of
           None \<Rightarrow> (join '' AND '' conditions, params)
         | Some entries \<Rightarrow>
             (let (c, p) = foldl (\<lambda>acc e. filter_entry e acc) (conditions, params) entries
              in (join '' AND '' c, p)))"

subsection \<open>ORDER BY and LIMIT\<close>

record OrderBySpec =
  ob_field :: string
  ob_direction :: "string option"
  ob_nulls :: "string option"

definition order_clause :: "OrderBySpec \<Rightarrow> string" where
  "order_clause spec =
     (let direction = (case ob_direction spec of None \<Rightarrow> ''ASC'' | Some d \<Rightarrow> if d = [] then ''ASC'' else d);
          nullsHandling =
            (case ob_nulls spec of
               Some n \<Rightarrow> if n \<noteq> [] then '' NULLS '' @ n
                         else if direction = ''ASC'' then '' NULLS FIRST'' else '' NULLS LAST''
             | None \<Rightarrow> if direction = ''ASC'' then '' NULLS FIRST'' else '' NULLS LAST'')
      in quoted (ob_field spec) @ '' '' @ direction @ nullsHandling)"

definition buildOrderByClause :: "OrderBySpec list option \<Rightarrow> string" where
  "buildOrderByClause orderBy =
     (case orderBy of
        None \<Rightarrow> ''ORDER BY '' @ quoted ''createdAt'' @ '' DESC, '' @ quoted ''id'' @ '' ASC''
      | Some specs \<Rightarrow>
          if specs = [] then ''ORDER BY '' @ quoted ''createdAt'' @ '' DESC, '' @ quoted ''id'' @ '' ASC''
          else ''ORDER BY '' @ join '', '' (map order_clause specs @ [quoted ''id'' @ '' ASC'']))"

record PaginationArgs =
  p_first :: "int option"
  p_last :: "int option"
  p_before :: "string option"
  p_after :: "string option"

definition buildPaginationClause :: "PaginationArgs \<Rightarrow> string \<times> int" where
  "buildPaginationClause pagination =
     (let limit = (case p_first pagination of
                     Some n \<Rightarrow> n
                   | None \<Rightarrow> (case p_last pagination of Some n \<Rightarrow> n | None \<Rightarrow> 50))
      in (''LIMIT '' @ int_str (limit + 1), limit))"

section \<open>The storage engine\<close>

text \<open>
  The engine is outside the repository. What follows is the part of its behaviour the
  generated statements rely on: a row is a list of columns with their values (a column that
  is not listed reads as NULL), clause text is split into tokens, a WHERE clause is a
  disjunction of conjunctions of comparisons with \<open>AND\<close> binding tighter than \<open>OR\<close>,
  placeholders take the bound values from left to right, and a comparison with NULL is not
  true. Keywords are matched in upper case, as the generated text writes them; a doubled
  double quote inside a quoted name is not treated as an escape.
\<close>

type_synonym row = "(string \<times> sqlv) list"

definition col :: "row \<Rightarrow> string \<Rightarrow> sqlv" where
  "col r c = (case map_of r c of Some v \<Rightarrow> v | None \<Rightarrow> SNull)"

text \<open>
  Assignment to a key: an existing key keeps its place and takes the new value, a new key
  goes to the end. This is both a column assignment on a row and a property assignment on
  a JavaScript object.
\<close>

fun obj_set :: "(string \<times> 'a) list \<Rightarrow> string \<Rightarrow> 'a \<Rightarrow> (string \<times> 'a) list" where
  "obj_set [] c v = [(c, v)]"
| "obj_set ((k, x) # r) c v = (if k = c then (k, v) # r else (k, x) # obj_set r c v)"

datatype token =
    TWord string
  | TQuoted string
  | TParam
  | TLParen
  | TRParen
  | TComma
  | TEq
  | TNeq
  | TMinus
  | TNum nat
  | TBad char

definition is_space :: "char \<Rightarrow> bool" where
  "is_space c = (c = CHR '' '' \<or> c = newline \<or> c = CHR 0x09 \<or> c = CHR 0x0D)"

definition is_digit :: "char \<Rightarrow> bool" where
  "is_digit c = ((48::nat) \<le> of_char c \<and> of_char c \<le> (57::nat))"

definition is_word_start :: "char \<Rightarrow> bool" where
  "is_word_start c =
     (((65::nat) \<le> of_char c \<and> of_char c \<le> (90::nat))
      \<or> ((97::nat) \<le> of_char c \<and> of_char c \<le> (122::nat))
      \<or> c = CHR ''_'')"

definition is_word_char :: "char \<Rightarrow> bool" where
  "is_word_char c = (is_word_start c \<or> is_digit c)"

definition digits_val :: "string \<Rightarrow> nat" where
  "digits_val ds = foldl (\<lambda>n d. 10 * n + (of_char d - 48)) 0 ds"

function tokenize :: "string \<Rightarrow> token list" where
  "tokenize [] = []"
| "tokenize (c # cs) =
     (if is_space c then tokenize cs
      else if c = dquote then
        (case dropWhile (\<lambda>x. x \<noteq> dquote) cs of
           [] \<Rightarrow> [TBad c]
         | q # rest \<Rightarrow> TQuoted (takeWhile (\<lambda>x. x \<noteq> dquote) cs) # tokenize rest)
      else if c = CHR ''?'' then TParam # tokenize cs
      else if c = CHR ''('' then TLParen # tokenize cs
      else if c = CHR '')'' then TRParen # tokenize cs
      else if c = CHR '','' then TComma # tokenize cs
      else if c = CHR ''='' then TEq # tokenize cs
      else if c = CHR ''-'' then TMinus # tokenize cs
      else if c = CHR ''!'' then
        (case cs of
           [] \<Rightarrow> [TBad c]
         | d # rest \<Rightarrow> if d = CHR ''='' then TNeq # tokenize rest else [TBad c])
      else if is_digit c then
        TNum (digits_val (c # takeWhile is_digit cs)) # tokenize (dropWhile is_digit cs)
      else if is_word_start c then
        TWord (c # takeWhile is_word_char cs) # tokenize (dropWhile is_word_char cs)
      else [TBad c])"
  by pat_completeness auto
termination
proof (relation "measure length")
  fix c :: char and cs :: string and q :: char and rest :: string
  assume "dropWhile (\<lambda>x. x \<noteq> dquote) cs = q # rest"
  then have "length (q # rest) \<le> length cs"
    by (metis length_dropWhile_le)
  then show "(rest, c # cs) \<in> measure length" by simp
qed (auto simp: le_imp_less_Suc length_dropWhile_le)

definition sql_keywords :: "string list" where
  "sql_keywords = [''AND'', ''OR'', ''IS'', ''NULL'', ''IN'', ''LIKE'', ''COLLATE'', ''NOCASE'', ''NOT'',
               ''ORDER'', ''BY'', ''ASC'', ''DESC'', ''NULLS'', ''FIRST'', ''LAST'', ''LIMIT'',
               ''WHERE'', ''SET'']"

text \<open>A column reference: a quoted name, or a bare word that is not a keyword.\<close>

fun operand :: "token \<Rightarrow> string option" where
  "operand (TQuoted s) = Some s"
| "operand (TWord s) = (if s \<in> set sql_keywords then None else Some s)"
| "operand t = None"

definition count_params :: "token list \<Rightarrow> nat" where
  "count_params ts = length (filter (\<lambda>t. t = TParam) ts)"

text \<open>
  The placeholder list of \<open>IN (?, ?, ...)\<close> after its opening parenthesis: the number of
  placeholders and the number of tokens up to and including the closing parenthesis.
\<close>

fun in_list :: "token list \<Rightarrow> (nat \<times> nat) option" where
  "in_list (TRParen # ts) = Some (0, 1)"
| "in_list (TParam # TRParen # ts) = Some (1, 2)"
| "in_list (TParam # TComma # ts) =
     (case ts of
        TParam # us \<Rightarrow> (case in_list ts of Some (n, k) \<Rightarrow> Some (Suc n, k + 2) | None \<Rightarrow> None)
      | _ \<Rightarrow> None)"
| "in_list ts = None"

definition sql_eq :: "sqlv \<Rightarrow> sqlv \<Rightarrow> bool" where
  "sql_eq a b = (a \<noteq> SNull \<and> b \<noteq> SNull \<and> a = b)"

definition sql_neq :: "sqlv \<Rightarrow> sqlv \<Rightarrow> bool" where
  "sql_neq a b = (a \<noteq> SNull \<and> b \<noteq> SNull \<and> a \<noteq> b)"

definition sql_in :: "sqlv \<Rightarrow> sqlv list \<Rightarrow> bool" where
  "sql_in a bs = list_ex (\<lambda>b. sql_eq a b) bs"

definition sql_text :: "sqlv \<Rightarrow> string option" where
  "sql_text v = (case v of SNull \<Rightarrow> None | SInt n \<Rightarrow> Some (int_str n) | SText s \<Rightarrow> Some s)"

text \<open>
  \<open>LIKE\<close>: the matcher itself (pattern first, then the text) is a parameter of the engine.
\<close>

definition sql_like :: "(string \<Rightarrow> string \<Rightarrow> bool) \<Rightarrow> sqlv \<Rightarrow> sqlv \<Rightarrow> bool" where
  "sql_like lk a p =
     (case (sql_text a, sql_text p) of (Some s, Some pat) \<Rightarrow> lk pat s | _ \<Rightarrow> False)"

datatype item = IVal bool | IAnd | IOr | ILP | IRP

fun where_items ::
  "(string \<Rightarrow> string \<Rightarrow> bool) \<Rightarrow> row \<Rightarrow> token list \<Rightarrow> sqlv list \<Rightarrow> item list option" where
  "where_items lk r [] ps = Some []"
| "where_items lk r (t # ts) ps =
     (if t = TLParen then map_option ((#) ILP) (where_items lk r ts ps)
      else if t = TRParen then map_option ((#) IRP) (where_items lk r ts ps)
      else if t = TWord ''AND'' then map_option ((#) IAnd) (where_items lk r ts ps)
      else if t = TWord ''OR'' then map_option ((#) IOr) (where_items lk r ts ps)
      else
        (case operand t of
           None \<Rightarrow> None
         | Some c \<Rightarrow>
             (case ts of
                [] \<Rightarrow> None
              | u # us \<Rightarrow>
                  if u = TEq then
                    (case (us, ps) of
                       (TParam # rest, p # ps') \<Rightarrow>
                         map_option ((#) (IVal (sql_eq (col r c) p))) (where_items lk r rest ps')
                     | _ \<Rightarrow> None)
                  else if u = TNeq then
                    (case (us, ps) of
                       (TParam # rest, p # ps') \<Rightarrow>
                         map_option ((#) (IVal (sql_neq (col r c) p))) (where_items lk r rest ps')
                     | _ \<Rightarrow> None)
                  else if u = TWord ''IS'' then
                    (case us of
                       [] \<Rightarrow> None
                     | v # rest \<Rightarrow>
                         if v = TWord ''NULL''
                         then map_option ((#) (IVal (col r c = SNull))) (where_items lk r rest ps)
                         else None)
                  else if u = TWord ''IN'' then
                    (case us of
                       [] \<Rightarrow> None
                     | v # rest \<Rightarrow>
                         if v = TLParen then
                           (case in_list rest of
                              None \<Rightarrow> None
                            | Some (n, k) \<Rightarrow>
                                if length ps < n then None
                                else map_option ((#) (IVal (sql_in (col r c) (take n ps))))
                                       (where_items lk r (drop k rest) (drop n ps)))
                         else None)
                  else if u = TWord ''LIKE'' then
                    (case (us, ps) of
                       (v # w # x # rest, p # ps') \<Rightarrow>
                         if v = TParam \<and> w = TWord ''COLLATE'' \<and> x = TWord ''NOCASE''
                         then map_option ((#) (IVal (sql_like lk (col r c) p))) (where_items lk r rest ps')
                         else None
                     | _ \<Rightarrow> None)
                  else None)))"

text \<open>
  Evaluation of the item sequence with a stack of open parentheses. A frame holds the value
  of the disjuncts closed so far and of the conjunction being read.
\<close>

fun run_items :: "item list \<Rightarrow> bool \<Rightarrow> bool \<times> bool \<Rightarrow> (bool \<times> bool) list \<Rightarrow> bool option" where
  "run_items [] need f st = (if need \<or> st \<noteq> [] then None else Some (fst f \<or> snd f))"
| "run_items (IVal b # is) need f st =
     (if need then run_items is False (fst f, snd f \<and> b) st else None)"
| "run_items (IAnd # is) need f st = (if need then None else run_items is True f st)"
| "run_items (IOr # is) need f st =
     (if need then None else run_items is True (fst f \<or> snd f, True) st)"
| "run_items (ILP # is) need f st =
     (if need then run_items is True (False, True) (f # st) else None)"
| "run_items (IRP # is) need f st =
     (if need then None
      else (case st of
              [] \<Rightarrow> None
            | g # st' \<Rightarrow> run_items is False (fst g, snd g \<and> (fst f \<or> snd f)) st'))"

definition where_holds ::
  "(string \<Rightarrow> string \<Rightarrow> bool) \<Rightarrow> row \<Rightarrow> token list \<Rightarrow> sqlv list \<Rightarrow> bool option" where
  "where_holds lk r ts ps =
     (case where_items lk r ts ps of
        None \<Rightarrow> None
      | Some items \<Rightarrow> run_items items True (False, True) [])"

fun select_where ::
  "(string \<Rightarrow> string \<Rightarrow> bool) \<Rightarrow> row list \<Rightarrow> token list \<Rightarrow> sqlv list \<Rightarrow> row list option" where
  "select_where lk [] ts ps = Some []"
| "select_where lk (r # rs) ts ps =
     (case where_holds lk r ts ps of
        None \<Rightarrow> None
      | Some b \<Rightarrow>
          (case select_where lk rs ts ps of
             None \<Rightarrow> None
           | Some out \<Rightarrow> Some (if b then r # out else out)))"

subsection \<open>Ordering and limits\<close>

datatype ordering = LT | EQ | GT

fun str_cmp :: "string \<Rightarrow> string \<Rightarrow> ordering" where
  "str_cmp [] [] = EQ"
| "str_cmp [] (b # bs) = LT"
| "str_cmp (a # as) [] = GT"
| "str_cmp (a # as) (b # bs) =
     (if (of_char a :: nat) < of_char b then LT
      else if (of_char b :: nat) < of_char a then GT
      else str_cmp as bs)"

text \<open>Non-null values: numbers sort before text, text by its bytes.\<close>

fun sqlv_cmp :: "sqlv \<Rightarrow> sqlv \<Rightarrow> ordering" where
  "sqlv_cmp (SInt a) (SInt b) = (if a < b then LT else if b < a then GT else EQ)"
| "sqlv_cmp (SInt a) (SText b) = LT"
| "sqlv_cmp (SText a) (SInt b) = GT"
| "sqlv_cmp (SText a) (SText b) = str_cmp a b"
| "sqlv_cmp x y = EQ"

definition flip_ordering :: "ordering \<Rightarrow> ordering" where
  "flip_ordering ord = (case ord of LT \<Rightarrow> GT | EQ \<Rightarrow> EQ | GT \<Rightarrow> LT)"

text \<open>A sort key: column, descending, nulls first.\<close>

type_synonym sort_key = "string \<times> bool \<times> bool"

definition key_cmp :: "sort_key \<Rightarrow> row \<Rightarrow> row \<Rightarrow> ordering" where
  "key_cmp k r1 r2 =
     (let x = col r1 (fst k); y = col r2 (fst k); desc = fst (snd k); nulls_first = snd (snd k) in
      if x = SNull \<and> y = SNull then EQ
      else if x = SNull then (if nulls_first then LT else GT)
      else if y = SNull then (if nulls_first then GT else LT)
      else if desc then flip_ordering (sqlv_cmp x y) else sqlv_cmp x y)"

fun rows_cmp :: "sort_key list \<Rightarrow> row \<Rightarrow> row \<Rightarrow> ordering" where
  "rows_cmp [] r1 r2 = EQ"
| "rows_cmp (k # ks) r1 r2 = (case key_cmp k r1 r2 of EQ \<Rightarrow> rows_cmp ks r1 r2 | ord \<Rightarrow> ord)"

fun insert_row :: "sort_key list \<Rightarrow> row \<Rightarrow> row list \<Rightarrow> row list" where
  "insert_row ks r [] = [r]"
| "insert_row ks r (x # xs) = (if rows_cmp ks r x = GT then x # insert_row ks r xs else r # x # xs)"

definition sort_rows :: "sort_key list \<Rightarrow> row list \<Rightarrow> row list" where
  "sort_rows ks rs = foldr (insert_row ks) rs []"

text \<open>
  The terms of an \<open>ORDER BY\<close>: a column, \<open>ASC\<close> or \<open>DESC\<close>, and optionally
  \<open>NULLS FIRST\<close> or \<open>NULLS LAST\<close>. Without it, nulls come first ascending and last descending.
\<close>

fun order_terms :: "token list \<Rightarrow> sort_key list option" where
  "order_terms (a # b # ts) =
     (case operand a of
        None \<Rightarrow> None
      | Some c \<Rightarrow>
          if b = TWord ''ASC'' \<or> b = TWord ''DESC'' then
            (case ts of
               [] \<Rightarrow> Some [(c, b = TWord ''DESC'', b = TWord ''ASC'')]
             | u # us \<Rightarrow>
                 if u = TComma
                 then map_option ((#) (c, b = TWord ''DESC'', b = TWord ''ASC'')) (order_terms us)
                 else if u = TWord ''NULLS'' then
                   (case us of
                      [] \<Rightarrow> None
                    | v # vs \<Rightarrow>
                        if v = TWord ''FIRST'' \<or> v = TWord ''LAST'' then
                          (case vs of
                             [] \<Rightarrow> Some [(c, b = TWord ''DESC'', v = TWord ''FIRST'')]
                           | w # ws \<Rightarrow>
                               if w = TComma
                               then map_option ((#) (c, b = TWord ''DESC'', v = TWord ''FIRST''))
                                      (order_terms ws)
                               else None)
                        else None)
                 else None)
          else None)"
| "order_terms ts = None"

definition parse_order :: "token list \<Rightarrow> sort_key list option" where
  "parse_order ts =
     (case ts of
        [] \<Rightarrow> Some []
      | a # rest \<Rightarrow>
          (case rest of
             [] \<Rightarrow> None
           | b # terms \<Rightarrow>
               if a = TWord ''ORDER'' \<and> b = TWord ''BY'' then order_terms terms else None))"

text \<open>
  \<open>LIMIT\<close> with a number in the text or a placeholder; the result is \<open>None\<close> on a
  syntax error, \<open>Some None\<close> where there is no \<open>LIMIT\<close>. A negative limit is no limit.
\<close>

definition parse_limit :: "token list \<Rightarrow> sqlv list \<Rightarrow> int option option" where
  "parse_limit ts ps =
     (if ts = [] then Some None
      else if ts = [TWord ''LIMIT'', TParam] then
        (case ps of [SInt n] \<Rightarrow> Some (Some n) | _ \<Rightarrow> None)
      else (case ts of
              [a, TNum n] \<Rightarrow> if a = TWord ''LIMIT'' then Some (Some (int n)) else None
            | [a, TMinus, TNum n] \<Rightarrow> if a = TWord ''LIMIT'' then Some (Some (- int n)) else None
            | _ \<Rightarrow> None))"

definition apply_limit :: "int option \<Rightarrow> row list \<Rightarrow> row list" where
  "apply_limit lim rs = (case lim of None \<Rightarrow> rs | Some n \<Rightarrow> if n < 0 then rs else take (nat n) rs)"

subsection \<open>Binding and statements\<close>

text \<open>
  \<open>bind\<close> accepts null, booleans (stored as 0 and 1), numbers and strings, and rejects
  \<open>undefined\<close>, arrays and objects. The number of bound values has to be the number of
  placeholders of the statement.
\<close>

fun d1_bind :: "jsval \<Rightarrow> sqlv option" where
  "d1_bind JNull = Some SNull"
| "d1_bind (JBool b) = Some (SInt (if b then 1 else 0))"
| "d1_bind (JNum n) = Some (SInt n)"
| "d1_bind (JStr s) = Some (SText s)"
| "d1_bind v = None"

fun bind_all :: "jsval list \<Rightarrow> sqlv list option" where
  "bind_all [] = Some []"
| "bind_all (v # vs) =
     (case d1_bind v of
        None \<Rightarrow> None
      | Some x \<Rightarrow> (case bind_all vs of None \<Rightarrow> None | Some xs \<Rightarrow> Some (x # xs)))"

definition wrong_bindings :: err where
  "wrong_bindings = D1_ERROR ''Wrong number of parameter bindings for SQL query.''"

definition syntax_error :: err where
  "syntax_error = D1_ERROR ''SQL syntax error''"

definition constraint_failed :: err where
  "constraint_failed = D1_ERROR ''constraint failed''"

definition prepare_bind :: "token list \<Rightarrow> jsval list \<Rightarrow> err + sqlv list" where
  "prepare_bind ts params =
     (case bind_all params of
        None \<Rightarrow> Inl D1_TYPE_ERROR
      | Some ps \<Rightarrow> if length ps \<noteq> count_params ts then Inl wrong_bindings else Inr ps)"

text \<open>
  \<open>SELECT ... FROM t WHERE w [ORDER BY ...] [LIMIT n]\<close> with \<open>all()\<close>: the rows of the table
  that satisfy the WHERE clause, in order, cut at the limit. The select list is not
  evaluated: the result is the selected rows.
\<close>

definition d1_all ::
  "(string \<Rightarrow> string \<Rightarrow> bool) \<Rightarrow> row list \<Rightarrow> string \<Rightarrow> string \<Rightarrow> string \<Rightarrow> jsval list
     \<Rightarrow> err + row list" where
  "d1_all lk rows whereClause orderByClause limitClause params =
     (let wt = tokenize whereClause; ot = tokenize orderByClause; lt = tokenize limitClause in
      case prepare_bind (wt @ ot @ lt) params of
        Inl e \<Rightarrow> Inl e
      | Inr ps \<Rightarrow>
          (case select_where lk rows wt ps of
             None \<Rightarrow> Inl syntax_error
           | Some matching \<Rightarrow>
               (case parse_order ot of
                  None \<Rightarrow> Inl syntax_error
                | Some ks \<Rightarrow>
                    (case parse_limit lt (drop (count_params wt + count_params ot) ps) of
                       None \<Rightarrow> Inl syntax_error
                     | Some lim \<Rightarrow> Inr (apply_limit lim (sort_rows ks matching))))))"

text \<open>\<open>first()\<close>: the first row of the result, or null.\<close>

definition d1_first ::
  "(string \<Rightarrow> string \<Rightarrow> bool) \<Rightarrow> row list \<Rightarrow> string \<Rightarrow> string \<Rightarrow> string \<Rightarrow> jsval list
     \<Rightarrow> err + row option" where
  "d1_first lk rows whereClause orderByClause limitClause params =
     (case d1_all lk rows whereClause orderByClause limitClause params of
        Inl e \<Rightarrow> Inl e
      | Inr [] \<Rightarrow> Inr None
      | Inr (r # rs) \<Rightarrow> Inr (Some r))"

text \<open>\<open>SELECT COUNT(*) as count FROM t WHERE w\<close> with \<open>first()\<close>.\<close>

definition d1_count ::
  "(string \<Rightarrow> string \<Rightarrow> bool) \<Rightarrow> row list \<Rightarrow> string \<Rightarrow> jsval list \<Rightarrow> err + int" where
  "d1_count lk rows whereClause params =
     (case d1_all lk rows whereClause [] [] params of
        Inl e \<Rightarrow> Inl e
      | Inr rs \<Rightarrow> Inr (int (length rs)))"

text \<open>
  The tables of \<open>migrations/0003_crm_entities.sql\<close> declare \<open>id TEXT PRIMARY KEY NOT NULL\<close>
  and \<open>workspaceId TEXT NOT NULL\<close>.
\<close>

definition constraints_ok :: "row list \<Rightarrow> bool" where
  "constraints_ok rows =
     (distinct (map (\<lambda>r. col r ''id'') rows)
      \<and> list_all (\<lambda>r. col r ''id'' \<noteq> SNull \<and> col r ''workspaceId'' \<noteq> SNull) rows)"

text \<open>The column list of an \<open>INSERT\<close>: quoted names separated by commas.\<close>

fun column_list :: "token list \<Rightarrow> string list option" where
  "column_list [a] = (case operand a of None \<Rightarrow> None | Some c \<Rightarrow> Some [c])"
| "column_list (a # b # ts) =
     (case operand a of
        None \<Rightarrow> None
      | Some c \<Rightarrow> if b = TComma then map_option ((#) c) (column_list ts) else None)"
| "column_list [] = None"

fun placeholder_list :: "token list \<Rightarrow> bool" where
  "placeholder_list [a] = (a = TParam)"
| "placeholder_list (a # b # ts) = (a = TParam \<and> b = TComma \<and> placeholder_list ts)"
| "placeholder_list [] = False"

text \<open>\<open>INSERT INTO t (columns) VALUES (placeholders)\<close> with \<open>run()\<close>.\<close>

definition d1_insert :: "row list \<Rightarrow> string \<Rightarrow> string \<Rightarrow> jsval list \<Rightarrow> err + row list" where
  "d1_insert rows columns placeholders params =
     (let ct = tokenize columns; pt = tokenize placeholders in
      case prepare_bind (ct @ pt) params of
        Inl e \<Rightarrow> Inl e
      | Inr ps \<Rightarrow>
          (case column_list ct of
             None \<Rightarrow> Inl syntax_error
           | Some cs \<Rightarrow>
               if \<not> placeholder_list pt \<or> length cs \<noteq> length ps \<or> \<not> distinct cs
               then Inl syntax_error
               else if constraints_ok (rows @ [zip cs ps]) then Inr (rows @ [zip cs ps])
               else Inl constraint_failed))"

text \<open>The assignments of an \<open>UPDATE ... SET\<close>: \<open>column = ?\<close> separated by commas.\<close>

fun set_list :: "token list \<Rightarrow> sqlv list \<Rightarrow> (string \<times> sqlv) list option" where
  "set_list (a # b # c # ts) ps =
     (case operand a of
        None \<Rightarrow> None
      | Some k \<Rightarrow>
          if b = TEq \<and> c = TParam then
            (case ps of
               [] \<Rightarrow> None
             | p # ps' \<Rightarrow>
                 (case ts of
                    [] \<Rightarrow> Some [(k, p)]
                  | d # us \<Rightarrow>
                      if d = TComma then map_option ((#) (k, p)) (set_list us ps') else None))
          else None)"
| "set_list ts ps = None"

definition assign :: "(string \<times> sqlv) list \<Rightarrow> row \<Rightarrow> row" where
  "assign sets r = foldl (\<lambda>acc kv. obj_set acc (fst kv) (snd kv)) r sets"

fun update_where ::
  "(string \<Rightarrow> string \<Rightarrow> bool) \<Rightarrow> (row \<Rightarrow> row option) \<Rightarrow> row list \<Rightarrow> token list \<Rightarrow> sqlv list
     \<Rightarrow> (row list \<times> nat) option" where
  "update_where lk f [] ts ps = Some ([], 0)"
| "update_where lk f (r # rs) ts ps =
     (case where_holds lk r ts ps of
        None \<Rightarrow> None
      | Some b \<Rightarrow>
          (case update_where lk f rs ts ps of
             None \<Rightarrow> None
           | Some (out, n) \<Rightarrow>
               if b then (case f r of None \<Rightarrow> Some (out, Suc n) | Some r' \<Rightarrow> Some (r' # out, Suc n))
               else Some (r # out, n)))"

text \<open>
  \<open>UPDATE t SET assignments WHERE w\<close> with \<open>run()\<close>: the new rows and the number of rows
  changed. Constraints are checked when a row was written.
\<close>

definition d1_update ::
  "(string \<Rightarrow> string \<Rightarrow> bool) \<Rightarrow> row list \<Rightarrow> string \<Rightarrow> string \<Rightarrow> jsval list
     \<Rightarrow> err + (row list \<times> nat)" where
  "d1_update lk rows setClauses whereClause params =
     (let st = tokenize setClauses; wt = tokenize whereClause in
      case prepare_bind (st @ wt) params of
        Inl e \<Rightarrow> Inl e
      | Inr ps \<Rightarrow>
          (case set_list st (take (count_params st) ps) of
             None \<Rightarrow> Inl syntax_error
           | Some sets \<Rightarrow>
               (case update_where lk (\<lambda>r. Some (assign sets r)) rows wt (drop (count_params st) ps) of
                  None \<Rightarrow> Inl syntax_error
                | Some (rows', n) \<Rightarrow>
                    if n = 0 \<or> constraints_ok rows' then Inr (rows', n)
                    else Inl constraint_failed)))"


text \<open>
  A \<open>LIKE\<close> matcher for worked examples: \<open>%\<close> is any text, \<open>_\<close> any one character, letters
  match without regard to case, and there is no escape character (the generated \<open>LIKE\<close> has no
  \<open>ESCAPE\<close> clause).
\<close>

fun sqlite_like :: "string \<Rightarrow> string \<Rightarrow> bool" where
  "sqlite_like [] s = (s = [])"
| "sqlite_like (p # ps) [] = (p = CHR ''%'' \<and> sqlite_like ps [])"
| "sqlite_like (p # ps) (c # cs) =
     (if p = CHR ''%'' then sqlite_like ps (c # cs) \<or> sqlite_like (p # ps) cs
      else if p = CHR ''_'' then sqlite_like ps cs
      else toLowerCase_char p = toLowerCase_char c \<and> sqlite_like ps cs)"

section \<open>Query execution: \<open>d1-query-builder.ts\<close>\<close>

text \<open>
  The database is a function from table names to rows. \<open>btoa\<close>, \<open>atob\<close>, \<open>JSON.stringify\<close>
  and \<open>JSON.parse\<close> are the runtime's; \<open>crypto.randomUUID()\<close> and the clock are inputs of the
  operations that use them.
\<close>

type_synonym db = "string \<Rightarrow> row list"

record runtime =
  rt_stringify :: "jsval \<Rightarrow> string option"
  rt_parse :: "string \<Rightarrow> jsval option"
  rt_btoa :: "string \<Rightarrow> string"
  rt_atob :: "string \<Rightarrow> string option"

fun js_of_sqlv :: "sqlv \<Rightarrow> jsval" where
  "js_of_sqlv SNull = JNull"
| "js_of_sqlv (SInt n) = JNum n"
| "js_of_sqlv (SText s) = JStr s"

subsection \<open>Cursors and page info\<close>

definition encodeCursor :: "runtime \<Rightarrow> jsval \<Rightarrow> err + string" where
  "encodeCursor rt rid =
     (case rt_stringify rt (JObj [(''id'', rid)]) of
        None \<Rightarrow> Inl TypeError
      | Some s \<Rightarrow> Inr (rt_btoa rt s))"

definition decodeCursor :: "runtime \<Rightarrow> string \<Rightarrow> jsval" where
  "decodeCursor rt cursor =
     (case rt_atob rt cursor of
        None \<Rightarrow> JNull
      | Some s \<Rightarrow> (case rt_parse rt s of None \<Rightarrow> JNull | Some v \<Rightarrow> v))"

record PageInfo =
  hasNextPage :: bool
  hasPreviousPage :: bool
  startCursor :: "string option"
  endCursor :: "string option"

text \<open>\<open>xs.slice(0, n)\<close>: a negative \<open>n\<close> counts from the end.\<close>

definition js_slice0 :: "'a list \<Rightarrow> int \<Rightarrow> 'a list" where
  "js_slice0 xs n = (if 0 \<le> n then take (nat n) xs else take (length xs - nat (- n)) xs)"

definition truthy_num :: "int option \<Rightarrow> bool" where
  "truthy_num v = (case v of None \<Rightarrow> False | Some n \<Rightarrow> n \<noteq> 0)"

definition truthy_str :: "string option \<Rightarrow> bool" where
  "truthy_str v = (case v of None \<Rightarrow> False | Some s \<Rightarrow> s \<noteq> [])"

definition buildPageInfo ::
  "runtime \<Rightarrow> row list \<Rightarrow> int \<Rightarrow> PaginationArgs \<Rightarrow> err + (row list \<times> PageInfo)" where
  "buildPageInfo rt recs limit args =
     (let hasExtraRecord = (int (length recs) > limit);
          trimmed = (if hasExtraRecord then js_slice0 recs limit else recs);
          trimmedRecords =
            (if truthy_num (p_last args) \<and> \<not> truthy_num (p_first args) then rev trimmed else trimmed);
          next = (if truthy_num (p_first args) then hasExtraRecord else truthy_str (p_before args));
          prev = (if truthy_num (p_last args) then hasExtraRecord else truthy_str (p_after args))
      in if trimmedRecords = [] then
           Inr (trimmedRecords,
                \<lparr>hasNextPage = next, hasPreviousPage = prev, startCursor = None, endCursor = None\<rparr>)
         else
           (case encodeCursor rt (js_of_sqlv (col (hd trimmedRecords) ''id'')) of
              Inl e \<Rightarrow> Inl e
            | Inr sc \<Rightarrow>
                (case encodeCursor rt (js_of_sqlv (col (last trimmedRecords) ''id'')) of
                   Inl e \<Rightarrow> Inl e
                 | Inr ec \<Rightarrow>
                     Inr (trimmedRecords,
                          \<lparr>hasNextPage = next, hasPreviousPage = prev,
                           startCursor = Some sc, endCursor = Some ec\<rparr>))))"

subsection \<open>Reads\<close>

record SelectResult =
  records :: "row list"
  pageInfo :: PageInfo
  totalCount :: int

text \<open>
  The parameters \<open>executeSelect\<close> binds: those of the WHERE clause and, when \<open>after\<close> is
  given and decodes to a truthy value, the parameters of the cursor filter without the
  first. The WHERE text of the cursor filter is dropped by the source.
\<close>

definition select_params :: "runtime \<Rightarrow> jsval list \<Rightarrow> string \<Rightarrow> PaginationArgs \<Rightarrow> jsval list" where
  "select_params rt params workspaceId pagination =
     (case p_after pagination of
        None \<Rightarrow> params
      | Some a \<Rightarrow>
          if a = [] then params
          else (let decoded = decodeCursor rt a in
                if truthy decoded then
                  (let cursorFilter = [(''id'', JObj [(''neq'', js_get decoded ''id'')])];
                       cursorParams = snd (buildWhereClause (Some cursorFilter) workspaceId)
                   in params @ tl cursorParams)
                else params))"

definition executeSelect ::
  "runtime \<Rightarrow> (string \<Rightarrow> string \<Rightarrow> bool) \<Rightarrow> db \<Rightarrow> string \<Rightarrow> string
     \<Rightarrow> (string \<times> jsval) list option \<Rightarrow> OrderBySpec list option \<Rightarrow> PaginationArgs
     \<Rightarrow> err + SelectResult" where
  "executeSelect rt lk d tableName workspaceId fltr orderBy pagination =
     (let whereClause = fst (buildWhereClause fltr workspaceId);
          orderByClause = buildOrderByClause orderBy;
          paginationClause = fst (buildPaginationClause pagination);
          limit = snd (buildPaginationClause pagination);
          params = select_params rt (snd (buildWhereClause fltr workspaceId)) workspaceId pagination
      in case d1_all lk (d tableName) whereClause orderByClause paginationClause params of
           Inl e \<Rightarrow> Inl e
         | Inr results \<Rightarrow>
             (case d1_count lk (d tableName) whereClause params of
                Inl e \<Rightarrow> Inl e
              | Inr cnt \<Rightarrow>
                  (case buildPageInfo rt results limit pagination of
                     Inl e \<Rightarrow> Inl e
                   | Inr (paginatedRecords, info) \<Rightarrow>
                       Inr \<lparr>records = paginatedRecords, pageInfo = info, totalCount = cnt\<rparr>)))"


subsection \<open>Writes\<close>

text \<open>The object an object literal builds from its entries, in order.\<close>

definition js_object :: "(string \<times> jsval) list \<Rightarrow> (string \<times> jsval) list" where
  "js_object entries = foldl (\<lambda>acc kv. obj_set acc (fst kv) (snd kv)) [] entries"

text \<open>
  \<open>executeInsert\<close>: \<open>rid\<close> is the value of \<open>crypto.randomUUID()\<close>, \<open>now\<close> that of
  \<open>new Date().toISOString()\<close>. The result is the new database and the record returned.
\<close>

definition insert_record ::
  "string \<Rightarrow> string \<Rightarrow> string \<Rightarrow> (string \<times> jsval) list \<Rightarrow> (string \<times> jsval) list" where
  "insert_record rid now workspaceId data =
     js_object ([(''id'', JStr rid)] @ data
                @ [(''workspaceId'', JStr workspaceId), (''createdAt'', JStr now), (''updatedAt'', JStr now)])"


text \<open>
  \<open>executeInsertMany\<close>: one generated id for each element of \<open>dataArray\<close>; the batch is
  applied as a whole or not at all.
\<close>

fun insert_batch ::
  "string \<Rightarrow> row list \<Rightarrow> string \<Rightarrow> (string \<times> (string \<times> jsval) list) list \<Rightarrow> err + row list" where
  "insert_batch now rows workspaceId [] = Inr rows"
| "insert_batch now rows workspaceId ((rid, data) # rest) =
     (let record = insert_record rid now workspaceId data;
          columns = map fst record
      in case d1_insert rows (join '', '' (map quoted columns))
                (join '', '' (map (\<lambda>c. ''?'') columns)) (map snd record) of
           Inl e \<Rightarrow> Inl e
         | Inr rows' \<Rightarrow> insert_batch now rows' workspaceId rest)"

definition executeInsertMany ::
  "string list \<Rightarrow> string \<Rightarrow> db \<Rightarrow> string \<Rightarrow> string \<Rightarrow> (string \<times> jsval) list list
     \<Rightarrow> err + (db \<times> (string \<times> jsval) list list)" where
  "executeInsertMany rids now d tableName workspaceId dataArray =
     (case insert_batch now (d tableName) workspaceId (zip rids dataArray) of
        Inl e \<Rightarrow> Inl e
      | Inr rows' \<Rightarrow>
          Inr (d(tableName := rows'),
               map (\<lambda>p. insert_record (fst p) now workspaceId (snd p)) (zip rids dataArray)))"


definition executeSoftDelete ::
  "string \<Rightarrow> (string \<Rightarrow> string \<Rightarrow> bool) \<Rightarrow> db \<Rightarrow> string \<Rightarrow> string \<Rightarrow> string
     \<Rightarrow> err + (db \<times> row option)" where
  "executeSoftDelete now lk d tableName workspaceId rid =
     (case d1_update lk (d tableName)
             (quoted ''deletedAt'' @ '' = ?, '' @ quoted ''updatedAt'' @ '' = ?'')
             (''workspaceId = ? AND id = ? AND '' @ quoted ''deletedAt'' @ '' IS NULL'')
             [JStr now, JStr now, JStr workspaceId, JStr rid] of
        Inl e \<Rightarrow> Inl e
      | Inr (rows', n) \<Rightarrow>
          (case d1_first lk rows' ''workspaceId = ? AND id = ?'' [] []
                  [JStr workspaceId, JStr rid] of
             Inl e \<Rightarrow> Inl e
           | Inr res \<Rightarrow> Inr (d(tableName := rows'), res)))"


section \<open>Keyword search: \<open>search-resolver.ts\<close>\<close>














section \<open>Data for worked examples\<close>

text \<open>
  A \<open>company\<close> table with a row of tenant \<open>T2\<close>, a soft-deleted row of tenant \<open>T1\<close> and a
  live row of tenant \<open>T1\<close>, and a \<open>task\<close> table with three rows of tenant \<open>T1\<close>.
\<close>

definition company_c1 :: row where
  "company_c1 = [(''id'', SText ''c1''), (''workspaceId'', SText ''T1''), (''name'', SText ''Acme''),
                 (''createdAt'', SText ''2024-01-01T00:00:00.000Z'')]"

definition company_c2 :: row where
  "company_c2 = [(''id'', SText ''c2''), (''workspaceId'', SText ''T2''), (''name'', SText ''Acme Rival''),
                 (''createdAt'', SText ''2024-01-02T00:00:00.000Z'')]"

definition company_c3 :: row where
  "company_c3 = [(''id'', SText ''c3''), (''workspaceId'', SText ''T1''), (''name'', SText ''Acme Old''),
                 (''createdAt'', SText ''2024-01-03T00:00:00.000Z''),
                 (''deletedAt'', SText ''2024-02-01T00:00:00.000Z'')]"

definition task_t1 :: row where
  "task_t1 = [(''id'', SText ''t1''), (''workspaceId'', SText ''T1''), (''title'', SText ''first''),
              (''createdAt'', SText ''2024-03-01T00:00:00.000Z'')]"

definition task_t2 :: row where
  "task_t2 = [(''id'', SText ''t2''), (''workspaceId'', SText ''T1''), (''title'', SText ''second''),
              (''createdAt'', SText ''2024-03-02T00:00:00.000Z'')]"

definition task_t3 :: row where
  "task_t3 = [(''id'', SText ''t3''), (''workspaceId'', SText ''T1''), (''title'', SText ''third''),
              (''createdAt'', SText ''2024-03-03T00:00:00.000Z'')]"

definition sample_db :: db where
  "sample_db t =
     (if t = ''company'' then [company_c2, company_c3, company_c1]
      else if t = ''task'' then [task_t1, task_t2, task_t3]
      else [])"

text \<open>
  The runtime at the cursors of these rows: the JSON text of \<open>{id}\<close> and its base64 form.
\<close>

definition sample_cursor_table :: "(string \<times> string \<times> string) list" where
  "sample_cursor_table =
     [(''c1'', ''{\"id\":\"c1\"}'', ''eyJpZCI6ImMxIn0=''),
      (''c2'', ''{\"id\":\"c2\"}'', ''eyJpZCI6ImMyIn0=''),
      (''c3'', ''{\"id\":\"c3\"}'', ''eyJpZCI6ImMzIn0=''),
      (''t1'', ''{\"id\":\"t1\"}'', ''eyJpZCI6InQxIn0=''),
      (''t2'', ''{\"id\":\"t2\"}'', ''eyJpZCI6InQyIn0=''),
      (''t3'', ''{\"id\":\"t3\"}'', ''eyJpZCI6InQzIn0='')]"

definition sample_rt :: runtime where
  "sample_rt =
     \<lparr>rt_stringify =
        (\<lambda>v. case map_of (map (\<lambda>e. (JObj [(''id'', JStr (fst e))], fst (snd e))) sample_cursor_table) v of
               Some j \<Rightarrow> Some j
             | None \<Rightarrow> sample_stringify v),
      rt_parse =
        (\<lambda>s. case map_of (map (\<lambda>e. (fst (snd e), JObj [(''id'', JStr (fst e))])) sample_cursor_table) s of
               Some v \<Rightarrow> Some v
             | None \<Rightarrow> sample_parse s),
      rt_btoa =
        (\<lambda>s. case map_of (map (\<lambda>e. (fst (snd e), snd (snd e))) sample_cursor_table) s of
               Some b \<Rightarrow> b
             | None \<Rightarrow> []),
      rt_atob = (\<lambda>s. map_of (map (\<lambda>e. (snd (snd e), fst (snd e))) sample_cursor_table) s)\<rparr>"


section \<open>Predicates used in the statements\<close>







text \<open>
  The row a soft delete writes to: it belongs to the tenant, has the id and is not yet
  deleted; and the row it leaves behind.
\<close>

definition live_match :: "string \<Rightarrow> string \<Rightarrow> row \<Rightarrow> bool" where
  "live_match ws rid r =
     (col r ''workspaceId'' = SText ws \<and> col r ''id'' = SText rid \<and> col r ''deletedAt'' = SNull)"

definition soft_deleted :: "string \<Rightarrow> row \<Rightarrow> row" where
  "soft_deleted now r = assign [(''deletedAt'', SText now), (''updatedAt'', SText now)] r"

text \<open>
  The first row of a tenant with a given id, which is what the re-read at the end of a soft
  delete returns, and the task \<open>t2\<close> of the examples after its soft delete.
\<close>

definition first_match :: "string \<Rightarrow> string \<Rightarrow> row list \<Rightarrow> row option" where
  "first_match ws rid rows =
     (case filter (\<lambda>r. col r ''workspaceId'' = SText ws \<and> col r ''id'' = SText rid) rows of
        [] \<Rightarrow> None
      | r # rs \<Rightarrow> Some r)"

definition task_t2_deleted :: row where
  "task_t2_deleted = task_t2 @ [(''deletedAt'', SText ''2024-04-01T00:00:00.000Z''),
                                (''updatedAt'', SText ''2024-04-01T00:00:00.000Z'')]"





text \<open>
  Page requests of the worked examples: the first two rows, the last row, and the order
  \<open>createdAt DESC\<close>.
\<close>

definition first_two :: PaginationArgs where
  "first_two = \<lparr>p_first = Some 2, p_last = None, p_before = None, p_after = None\<rparr>"


definition createdAt_desc :: "OrderBySpec list" where
  "createdAt_desc = [\<lparr>ob_field = ''createdAt'', ob_direction = Some ''DESC'', ob_nulls = None\<rparr>]"

text \<open>
  What a read with a cursor that does not decode returns, in terms of the same read without
  the cursor: the same error or the same rows and count, and \<open>hasPreviousPage\<close> set by the
  mere presence of the cursor string unless \<open>last\<close> decides it.
\<close>

definition ignore_cursor :: "PaginationArgs \<Rightarrow> string \<Rightarrow> err + SelectResult \<Rightarrow> err + SelectResult" where
  "ignore_cursor pagination c r =
     (case r of
        Inl e \<Rightarrow> Inl e
      | Inr res \<Rightarrow>
          Inr (res\<lparr>pageInfo := (pageInfo res)
                 \<lparr>hasPreviousPage :=
                    (if truthy_num (p_last pagination) then hasPreviousPage (pageInfo res) else c \<noteq> [])\<rparr>\<rparr>))"










section \<open>Properties of the transformers\<close>

text \<open>
  Claim C4, as stated, asks that deserialising the serialised form gives back the value for
  every accepted value, \<open>null\<close> included. The list transformer stores \<open>null\<close> as storage
  null and reads storage null back as the empty list: the round trip of \<open>null\<close> is \<open>[]\<close>.
\<close>

theorem C4_list_null_counterexample:
  "array_roundtrip sample_stringify sample_parse JNull = Inr [] \<and> JArr [] \<noteq> JNull"
  by (simp add: array_roundtrip_def arrayTransformer_to_def arrayTransformer_from_def)

text \<open>
  Claim C4, amended: the round trip is the identity on \<open>null\<close> and on every document that
  the runtime's JSON codec round-trips (document transformer), on every array that the
  codec round-trips, the empty array included (list transformer), on every valid date and on
  every date string, up to the instant it denotes (timestamp transformer), and on \<open>true\<close>,
  \<open>false\<close> and \<open>null\<close> (boolean transformer); the list transformer sends \<open>null\<close> to the
  empty list.
\<close>

theorem C4_roundtrip:
  "(v \<noteq> JUndefined \<and> (v = JNull \<or> (\<exists>s. stringify v = Some s \<and> parse s = Some v))
      \<longrightarrow> jsonTransformer_from parse (jsonTransformer_to stringify v) = v)
   \<and> (stringify (JArr xs) = Some s \<and> parse s = Some (JArr xs)
      \<longrightarrow> array_roundtrip stringify parse (JArr xs) = Inr xs)
   \<and> array_roundtrip stringify parse JNull = Inr []
   \<and> (dateParse (toISOString t) = Some t
      \<longrightarrow> timestamp_roundtrip toISOString dateParse (TsDate (Some t)) = Inr (Some t))
   \<and> (dateParse str = Some t \<and> dateParse (toISOString t) = Some t
      \<longrightarrow> timestamp_roundtrip toISOString dateParse (TsString str) = Inr (Some t))
   \<and> timestamp_roundtrip toISOString dateParse TsNull = Inr None
   \<and> booleanTransformer_from (stored_int (booleanTransformer_to b)) = b"
proof -
  have doc: "v \<noteq> JUndefined \<and> (v = JNull \<or> (\<exists>s. stringify v = Some s \<and> parse s = Some v))
      \<longrightarrow> jsonTransformer_from parse (jsonTransformer_to stringify v) = v"
    by (auto simp: jsonTransformer_from_def jsonTransformer_to_def)
  have lst: "stringify (JArr xs) = Some s \<and> parse s = Some (JArr xs)
      \<longrightarrow> array_roundtrip stringify parse (JArr xs) = Inr xs"
    by (simp add: array_roundtrip_def arrayTransformer_to_def arrayTransformer_from_def)
  have lst_null: "array_roundtrip stringify parse JNull = Inr []"
    by (simp add: array_roundtrip_def arrayTransformer_to_def arrayTransformer_from_def)
  have ts: "dateParse (toISOString t) = Some t
      \<longrightarrow> timestamp_roundtrip toISOString dateParse (TsDate (Some t)) = Inr (Some t)"
    by (simp add: timestamp_roundtrip_def timestampTransformer_to_def timestampTransformer_from_def)
  have ts_str: "dateParse str = Some t \<and> dateParse (toISOString t) = Some t
      \<longrightarrow> timestamp_roundtrip toISOString dateParse (TsString str) = Inr (Some t)"
    by (simp add: timestamp_roundtrip_def timestampTransformer_to_def timestampTransformer_from_def)
  have ts_null: "timestamp_roundtrip toISOString dateParse TsNull = Inr None"
    by (simp add: timestamp_roundtrip_def timestampTransformer_to_def timestampTransformer_from_def)
  have bool: "booleanTransformer_from (stored_int (booleanTransformer_to b)) = b"
    by (cases b) (simp_all add: booleanTransformer_from_def booleanTransformer_to_def stored_int_def)
  from doc lst lst_null ts ts_str ts_null bool show ?thesis by blast
qed

theorem C4_roundtrip_witness:
  "jsonTransformer_from sample_parse
       (jsonTransformer_to sample_stringify (JObj [(''city'', JStr ''Paris'')]))
     = JObj [(''city'', JStr ''Paris'')]
   \<and> array_roundtrip sample_stringify sample_parse (JArr []) = Inr []
   \<and> timestamp_roundtrip sample_toISOString sample_dateParse (TsDate (Some 0)) = Inr (Some 0)
   \<and> timestamp_roundtrip sample_toISOString sample_dateParse (TsString ''1970-01-01T00:00:00.000Z'')
     = Inr (Some 0)
   \<and> booleanTransformer_from (stored_int (booleanTransformer_to (Some True))) = Some True"
  using C4_roundtrip [of "JObj [(''city'', JStr ''Paris'')]" sample_stringify sample_parse
      "[]" "''[]''" sample_dateParse sample_toISOString 0 "''1970-01-01T00:00:00.000Z''" "Some True"]
  by (simp add: sample_stringify_def sample_parse_def sample_toISOString_def sample_dateParse_def)

text \<open>
  Claim C7, as stated, gives the empty list as the list transformer's answer to stored
  text that is valid JSON but not an array. \<open>arrayTransformer.from\<close> wraps the parsed value
  in a one-element list instead.
\<close>

theorem C7_non_array_counterexample:
  "sample_parse ''5'' = Some (JNum 5)
   \<and> arrayTransformer_from sample_parse (Some ''5'') = [JNum 5]
   \<and> [JNum 5] \<noteq> ([] :: jsval list)"
  by (simp add: sample_parse_def arrayTransformer_from_def)

text \<open>
  Claim C7, amended: deserialising never raises (the three \<open>from\<close> functions are total and
  have no error result). Text that does not parse gives \<open>null\<close> for documents and the empty
  list for lists; text that parses to a non-array gives the one-element list holding the
  parsed value; an unparseable timestamp gives \<open>null\<close>.
\<close>

theorem C7_malformed_defaults:
  "(parse s = None
      \<longrightarrow> jsonTransformer_from parse (Some s) = JNull \<and> arrayTransformer_from parse (Some s) = [])
   \<and> (parse s = Some v \<and> (\<forall>xs. v \<noteq> JArr xs) \<longrightarrow> arrayTransformer_from parse (Some s) = [v])
   \<and> (dateParse s = None \<longrightarrow> timestampTransformer_from dateParse (Some s) = None)"
proof -
  have a: "parse s = None
      \<longrightarrow> jsonTransformer_from parse (Some s) = JNull \<and> arrayTransformer_from parse (Some s) = []"
    by (simp add: jsonTransformer_from_def arrayTransformer_from_def)
  have b: "parse s = Some v \<and> (\<forall>xs. v \<noteq> JArr xs) \<longrightarrow> arrayTransformer_from parse (Some s) = [v]"
    by (cases v) (simp_all add: arrayTransformer_from_def)
  have c: "dateParse s = None \<longrightarrow> timestampTransformer_from dateParse (Some s) = None"
    by (simp add: timestampTransformer_from_def)
  from a b c show ?thesis by blast
qed

theorem C7_malformed_defaults_witness:
  "sample_parse ''{oops'' = None
   \<and> jsonTransformer_from sample_parse (Some ''{oops'') = JNull
   \<and> arrayTransformer_from sample_parse (Some ''{oops'') = []
   \<and> sample_dateParse ''{oops'' = None
   \<and> timestampTransformer_from sample_dateParse (Some ''{oops'') = None"
  using C7_malformed_defaults [of sample_parse "''{oops''" "JNull" sample_dateParse]
  by (simp add: sample_parse_def sample_dateParse_def)

section \<open>The WHERE clause of a scoped read\<close>

text \<open>Tokens of the fragments the builder concatenates.\<close>

lemmas char_class_defs = is_space_def is_word_start_def is_word_char_def is_digit_def
  dquote_def newline_def squote_def backslash_def



























section \<open>What a scoped read returns\<close>




lemma length_insert_row: "length (insert_row ks r xs) = Suc (length xs)"
  by (induction xs) auto

lemma length_sort_rows: "length (sort_rows ks rs) = length rs"
  by (induction rs) (simp_all add: sort_rows_def length_insert_row)













lemma where_holds_ws_id:
  "where_holds lk r (tokenize ''workspaceId = ? AND id = ?'') [SText ws, SText rid]
     = Some (col r ''workspaceId'' = SText ws \<and> col r ''id'' = SText rid)"
  by (auto simp: char_class_defs where_holds_def sql_keywords_def sql_eq_def)

lemma where_holds_ws_id_live:
  "where_holds lk r (tokenize (''workspaceId = ? AND id = ? AND '' @ quoted ''deletedAt'' @ '' IS NULL''))
       [SText ws, SText rid]
     = Some (col r ''workspaceId'' = SText ws \<and> col r ''id'' = SText rid \<and> col r ''deletedAt'' = SNull)"
  by (auto simp: char_class_defs where_holds_def sql_keywords_def sql_eq_def quoted_def)


lemma update_where_map:
  assumes "\<And>r. where_holds lk r ts ps = Some (P r)"
  shows "update_where lk (\<lambda>r. Some (g r)) rows ts ps
           = Some (map (\<lambda>r. if P r then g r else r) rows, length (filter P rows))"
  by (induction rows) (simp_all add: assms)

lemma select_where_pred:
  assumes "\<And>r. where_holds lk r ts ps = Some (P r)"
  shows "select_where lk rows ts ps = Some (filter P rows)"
  by (induction rows) (simp_all add: assms)


lemma insert_row_nil: "insert_row [] r xs = r # xs"
  by (cases xs) simp_all

lemma sort_rows_nil: "sort_rows [] rs = rs"
  by (induction rs) (simp_all add: sort_rows_def insert_row_nil)

lemma d1_first_ws_id:
  "d1_first lk rows ''workspaceId = ? AND id = ?'' [] [] [JStr ws, JStr rid]
     = Inr (case filter (\<lambda>r. col r ''workspaceId'' = SText ws \<and> col r ''id'' = SText rid) rows of
              [] \<Rightarrow> None | r # rs \<Rightarrow> Some r)"
proof -
  let ?P = "\<lambda>r. col r ''workspaceId'' = SText ws \<and> col r ''id'' = SText rid"
  have cp: "count_params (tokenize ''workspaceId = ? AND id = ?'') = 2"
    by (simp add: char_class_defs count_params_def)
  have "d1_all lk rows ''workspaceId = ? AND id = ?'' [] [] [JStr ws, JStr rid] = Inr (filter ?P rows)"
    unfolding d1_all_def Let_def prepare_bind_def
    using select_where_pred [of lk "tokenize ''workspaceId = ? AND id = ?''" "[SText ws, SText rid]" ?P, OF where_holds_ws_id] cp
    by (simp add: parse_order_def parse_limit_def apply_limit_def sort_rows_nil del: tokenize.simps(2))
  then show ?thesis by (simp add: d1_first_def split: list.splits)
qed








lemma col_obj_set: "col (obj_set r c v) c' = (if c' = c then v else col r c')"
  by (induction r) (auto simp: col_def)

lemma set_list_soft_delete:
  "set_list (tokenize (quoted ''deletedAt'' @ '' = ?, '' @ quoted ''updatedAt'' @ '' = ?'')) [a, b]
     = Some [(''deletedAt'', a), (''updatedAt'', b)]"
  by (simp add: char_class_defs quoted_def)

lemma d1_update_soft_delete:
  "d1_update lk rows (quoted ''deletedAt'' @ '' = ?, '' @ quoted ''updatedAt'' @ '' = ?'')
       (''workspaceId = ? AND id = ? AND '' @ quoted ''deletedAt'' @ '' IS NULL'')
       [JStr now, JStr now, JStr ws, JStr rid]
     = (let rows' = map (\<lambda>r. if live_match ws rid r then soft_deleted now r else r) rows;
            n = length (filter (live_match ws rid) rows)
        in if n = 0 \<or> constraints_ok rows' then Inr (rows', n) else Inl constraint_failed)"
proof -
  let ?st = "tokenize (quoted ''deletedAt'' @ '' = ?, '' @ quoted ''updatedAt'' @ '' = ?'')"
  let ?wt = "tokenize (''workspaceId = ? AND id = ? AND '' @ quoted ''deletedAt'' @ '' IS NULL'')"
  have cs: "count_params ?st = 2" by (simp add: char_class_defs quoted_def count_params_def)
  have cw: "count_params ?wt = 2" by (simp add: char_class_defs quoted_def count_params_def)
  have wh: "where_holds lk r ?wt [SText ws, SText rid] = Some (live_match ws rid r)" for r
    unfolding live_match_def by (rule where_holds_ws_id_live)
  show ?thesis
    unfolding d1_update_def Let_def prepare_bind_def soft_deleted_def
    using update_where_map [of lk ?wt "[SText ws, SText rid]" "live_match ws rid", OF wh]
      set_list_soft_delete [of "SText now" "SText now"] cs cw
    by (simp add: count_params_def del: tokenize.simps)
qed

section \<open>Soft delete\<close>

lemma executeSoftDelete_result:
  "executeSoftDelete now lk d tableName ws rid
     = (let rows' = map (\<lambda>r. if live_match ws rid r then soft_deleted now r else r) (d tableName)
        in if (\<forall>r\<in>set (d tableName). \<not> live_match ws rid r) \<or> constraints_ok rows'
           then Inr (d(tableName := rows'), first_match ws rid rows')
           else Inl constraint_failed)"
  unfolding executeSoftDelete_def d1_update_soft_delete d1_first_ws_id first_match_def Let_def
  by (auto simp: filter_empty_conv)

lemma not_live_soft_deleted: "\<not> live_match ws rid (soft_deleted now r)"
  by (simp add: live_match_def soft_deleted_def assign_def col_obj_set)

lemma soft_delete_map_fixed:
  "map (\<lambda>r. if live_match ws rid r then soft_deleted now2 r else r)
       (map (\<lambda>r. if live_match ws rid r then soft_deleted now1 r else r) rows)
     = map (\<lambda>r. if live_match ws rid r then soft_deleted now1 r else r) rows"
  by (induction rows) (simp_all add: not_live_soft_deleted)

lemma soft_delete_none_live:
  "\<forall>r\<in>set (map (\<lambda>r. if live_match ws rid r then soft_deleted now r else r) rows). \<not> live_match ws rid r"
  by (auto simp: not_live_soft_deleted)

lemma map_id_not_live:
  "\<forall>r\<in>set rows. \<not> live_match ws rid r
     \<Longrightarrow> map (\<lambda>r. if live_match ws rid r then soft_deleted now r else r) rows = rows"
  by (induction rows) simp_all

text \<open>
  Claim C9: soft delete is idempotent. A second soft delete of the same tenant and id, at any
  later time, returns without error, leaves the database as the first delete left it
  (\<open>deletedAt\<close> and \<open>updatedAt\<close> keep the values of the first delete) and returns the same row;
  a soft delete only writes to rows matching tenant, id and \<open>deletedAt IS NULL\<close>.
\<close>

theorem C9_soft_delete_idempotent:
  "(executeSoftDelete now1 lk d tableName ws rid = Inr (d1, res1)
      \<longrightarrow> executeSoftDelete now2 lk d1 tableName ws rid = Inr (d1, res1))
   \<and> ((\<forall>r\<in>set (d tableName). \<not> live_match ws rid r)
      \<longrightarrow> executeSoftDelete now lk d tableName ws rid = Inr (d, first_match ws rid (d tableName)))
   \<and> (executeSoftDelete now lk d tableName ws rid = Inr (d2, res2)
      \<longrightarrow> length (d2 tableName) = length (d tableName)
          \<and> (\<forall>i<length (d tableName).
                d2 tableName ! i = (if live_match ws rid (d tableName ! i)
                                    then soft_deleted now (d tableName ! i) else d tableName ! i))
          \<and> (\<forall>t. t \<noteq> tableName \<longrightarrow> d2 t = d t))"
proof -
  let ?m = "\<lambda>now rows. map (\<lambda>r. if live_match ws rid r then soft_deleted now r else r) rows"
  have a: "executeSoftDelete now1 lk d tableName ws rid = Inr (d1, res1)
      \<longrightarrow> executeSoftDelete now2 lk d1 tableName ws rid = Inr (d1, res1)"
  proof
    assume "executeSoftDelete now1 lk d tableName ws rid = Inr (d1, res1)"
    then have d1: "d1 = d(tableName := ?m now1 (d tableName))"
      and r1: "res1 = first_match ws rid (?m now1 (d tableName))"
      unfolding executeSoftDelete_result Let_def by (auto split: if_splits)
    have rows: "d1 tableName = ?m now1 (d tableName)" unfolding d1 by simp
    have nl: "\<forall>r\<in>set (d1 tableName). \<not> live_match ws rid r"
      unfolding rows by (rule soft_delete_none_live)
    have fixed: "?m now2 (d1 tableName) = d1 tableName" using map_id_not_live [OF nl] .
    have upd: "d1(tableName := d1 tableName) = d1" by (rule fun_upd_triv)
    have "executeSoftDelete now2 lk d1 tableName ws rid
        = Inr (d1(tableName := ?m now2 (d1 tableName)), first_match ws rid (?m now2 (d1 tableName)))"
      unfolding executeSoftDelete_result Let_def by (rule if_P, rule disjI1, rule nl)
    also have "\<dots> = Inr (d1, first_match ws rid (d1 tableName))"
      unfolding fixed upd ..
    also have "first_match ws rid (d1 tableName) = res1" unfolding r1 rows ..
    finally show "executeSoftDelete now2 lk d1 tableName ws rid = Inr (d1, res1)" .
  qed
  have b: "(\<forall>r\<in>set (d tableName). \<not> live_match ws rid r)
      \<longrightarrow> executeSoftDelete now lk d tableName ws rid = Inr (d, first_match ws rid (d tableName))"
  proof
    assume nl: "\<forall>r\<in>set (d tableName). \<not> live_match ws rid r"
    have fixed: "?m now (d tableName) = d tableName" using map_id_not_live [OF nl] .
    have upd: "d(tableName := d tableName) = d" by (rule fun_upd_triv)
    have "executeSoftDelete now lk d tableName ws rid
        = Inr (d(tableName := ?m now (d tableName)), first_match ws rid (?m now (d tableName)))"
      unfolding executeSoftDelete_result Let_def by (rule if_P, rule disjI1, rule nl)
    also have "\<dots> = Inr (d, first_match ws rid (d tableName))"
      unfolding fixed upd ..
    finally show "executeSoftDelete now lk d tableName ws rid = Inr (d, first_match ws rid (d tableName))" .
  qed
  have c: "executeSoftDelete now lk d tableName ws rid = Inr (d2, res2)
      \<longrightarrow> length (d2 tableName) = length (d tableName)
          \<and> (\<forall>i<length (d tableName).
                d2 tableName ! i = (if live_match ws rid (d tableName ! i)
                                    then soft_deleted now (d tableName ! i) else d tableName ! i))
          \<and> (\<forall>t. t \<noteq> tableName \<longrightarrow> d2 t = d t)"
  proof
    assume "executeSoftDelete now lk d tableName ws rid = Inr (d2, res2)"
    then have d2: "d2 = d(tableName := ?m now (d tableName))"
      unfolding executeSoftDelete_result Let_def by (auto split: if_splits)
    show "length (d2 tableName) = length (d tableName)
          \<and> (\<forall>i<length (d tableName).
                d2 tableName ! i = (if live_match ws rid (d tableName ! i)
                                    then soft_deleted now (d tableName ! i) else d tableName ! i))
          \<and> (\<forall>t. t \<noteq> tableName \<longrightarrow> d2 t = d t)"
      unfolding d2 by simp
  qed
  from a b c show ?thesis by blast
qed

text \<open>
  Claim C9 on the sample database: task \<open>t2\<close> deleted twice.
\<close>

theorem C9_soft_delete_idempotent_witness:
  "executeSoftDelete ''2024-04-01T00:00:00.000Z'' sqlite_like sample_db ''task'' ''T1'' ''t2''
     = Inr (sample_db(''task'' := [task_t1, task_t2_deleted, task_t3]), Some task_t2_deleted)
   \<and> executeSoftDelete ''2024-05-05T00:00:00.000Z'' sqlite_like
        (sample_db(''task'' := [task_t1, task_t2_deleted, task_t3])) ''task'' ''T1'' ''t2''
     = Inr (sample_db(''task'' := [task_t1, task_t2_deleted, task_t3]), Some task_t2_deleted)
   \<and> col task_t2_deleted ''deletedAt'' = SText ''2024-04-01T00:00:00.000Z''
   \<and> col task_t2_deleted ''updatedAt'' = SText ''2024-04-01T00:00:00.000Z''"
proof -
  let ?d1 = "sample_db(''task'' := [task_t1, task_t2_deleted, task_t3])"
  have rows: "sample_db ''task'' = [task_t1, task_t2, task_t3]" by (simp add: sample_db_def)
  have l1: "\<not> live_match ''T1'' ''t2'' task_t1" by (simp add: live_match_def task_t1_def col_def)
  have l2: "live_match ''T1'' ''t2'' task_t2" by (simp add: live_match_def task_t2_def col_def)
  have l3: "\<not> live_match ''T1'' ''t2'' task_t3" by (simp add: live_match_def task_t3_def col_def)
  have sd: "soft_deleted ''2024-04-01T00:00:00.000Z'' task_t2 = task_t2_deleted"
    by (simp add: soft_deleted_def assign_def task_t2_def task_t2_deleted_def)
  have ok: "constraints_ok [task_t1, task_t2_deleted, task_t3]"
    by (simp add: constraints_ok_def task_t1_def task_t2_def task_t3_def task_t2_deleted_def col_def)
  have fm: "first_match ''T1'' ''t2'' [task_t1, task_t2_deleted, task_t3] = Some task_t2_deleted"
    by (simp add: first_match_def task_t1_def task_t2_def task_t3_def task_t2_deleted_def col_def)
  have e1: "executeSoftDelete ''2024-04-01T00:00:00.000Z'' sqlite_like sample_db ''task'' ''T1'' ''t2''
     = Inr (?d1, Some task_t2_deleted)"
    unfolding executeSoftDelete_result Let_def rows using l1 l2 l3 sd ok fm by simp
  from C9_soft_delete_idempotent [of "''2024-04-01T00:00:00.000Z''" sqlite_like sample_db "''task''"
      "''T1''" "''t2''" ?d1 "Some task_t2_deleted" "''2024-05-05T00:00:00.000Z''"] e1
  have e2: "executeSoftDelete ''2024-05-05T00:00:00.000Z'' sqlite_like ?d1 ''task'' ''T1'' ''t2''
     = Inr (?d1, Some task_t2_deleted)" by blast
  have c1: "col task_t2_deleted ''deletedAt'' = SText ''2024-04-01T00:00:00.000Z''"
    by (simp add: task_t2_deleted_def task_t2_def col_def)
  have c2: "col task_t2_deleted ''updatedAt'' = SText ''2024-04-01T00:00:00.000Z''"
    by (simp add: task_t2_deleted_def task_t2_def col_def)
  from e1 e2 c1 c2 show ?thesis by blast
qed

section \<open>Writes: id and tenant of a row\<close>

lemma join_cons2: "xs \<noteq> [] \<Longrightarrow> join sep (x # xs) = x @ sep @ join sep xs"
  by (cases xs) simp_all





















































section \<open>Pagination\<close>

















text \<open>
  Claim C2: three tasks, page size 2, order \<open>createdAt DESC\<close>. The first page holds two rows
  with \<open>hasNextPage\<close>. The second read, with the returned end cursor as \<open>after\<close>, decodes the
  cursor and appends its id to the bound values, while the WHERE text keeps its single
  placeholder: the statement is bound with two values for one placeholder and the read
  fails instead of returning the third row.
\<close>

theorem C2_second_page_bindings:
  "executeSelect sample_rt sqlite_like sample_db ''task'' ''T1'' None (Some createdAt_desc) first_two
     = Inr \<lparr>records = [task_t3, task_t2],
            pageInfo = \<lparr>hasNextPage = True, hasPreviousPage = False,
                        startCursor = Some ''eyJpZCI6InQzIn0='', endCursor = Some ''eyJpZCI6InQyIn0=''\<rparr>,
            totalCount = 3\<rparr>
   \<and> executeSelect sample_rt sqlite_like sample_db ''task'' ''T1'' None (Some createdAt_desc)
        (first_two\<lparr>p_after := Some ''eyJpZCI6InQyIn0=''\<rparr>)
     = Inl wrong_bindings
   \<and> select_params sample_rt (snd (buildWhereClause None ''T1'')) ''T1''
        (first_two\<lparr>p_after := Some ''eyJpZCI6InQyIn0=''\<rparr>)
     = [JStr ''T1'', JStr ''t2'']
   \<and> count_params (tokenize (fst (buildWhereClause None ''T1''))) = 1"
proof -
  have a: "executeSelect sample_rt sqlite_like sample_db ''task'' ''T1'' None (Some createdAt_desc) first_two
     = Inr \<lparr>records = [task_t3, task_t2],
            pageInfo = \<lparr>hasNextPage = True, hasPreviousPage = False,
                        startCursor = Some ''eyJpZCI6InQzIn0='', endCursor = Some ''eyJpZCI6InQyIn0=''\<rparr>,
            totalCount = 3\<rparr>"
    by code_simp
  have b: "executeSelect sample_rt sqlite_like sample_db ''task'' ''T1'' None (Some createdAt_desc)
        (first_two\<lparr>p_after := Some ''eyJpZCI6InQyIn0=''\<rparr>)
     = Inl wrong_bindings"
    by code_simp
  have c: "select_params sample_rt (snd (buildWhereClause None ''T1'')) ''T1''
        (first_two\<lparr>p_after := Some ''eyJpZCI6InQyIn0=''\<rparr>)
     = [JStr ''T1'', JStr ''t2'']"
    by code_simp
  have d: "count_params (tokenize (fst (buildWhereClause None ''T1''))) = 1"
    by code_simp
  from a b c d show ?thesis by (intro conjI)
qed

section \<open>Cursors that do not decode\<close>

text \<open>
  Claim C10, as stated, asks for a caller error on a cursor that cannot be decoded. The read
  with the cursor \<open>not-a-cursor\<close> returns the first page, without error.
\<close>

theorem C10_undecodable_cursor_counterexample:
  "decodeCursor sample_rt ''not-a-cursor'' = JNull
   \<and> executeSelect sample_rt sqlite_like sample_db ''task'' ''T1'' None None
        (first_two\<lparr>p_after := Some ''not-a-cursor''\<rparr>)
     = Inr \<lparr>records = [task_t3, task_t2],
            pageInfo = \<lparr>hasNextPage = True, hasPreviousPage = True,
                        startCursor = Some ''eyJpZCI6InQzIn0='', endCursor = Some ''eyJpZCI6InQyIn0=''\<rparr>,
            totalCount = 3\<rparr>"
proof -
  have a: "decodeCursor sample_rt ''not-a-cursor'' = JNull" by code_simp
  have b: "executeSelect sample_rt sqlite_like sample_db ''task'' ''T1'' None None
        (first_two\<lparr>p_after := Some ''not-a-cursor''\<rparr>)
     = Inr \<lparr>records = [task_t3, task_t2],
            pageInfo = \<lparr>hasNextPage = True, hasPreviousPage = True,
                        startCursor = Some ''eyJpZCI6InQzIn0='', endCursor = Some ''eyJpZCI6InQyIn0=''\<rparr>,
            totalCount = 3\<rparr>"
    by code_simp
  from a b show ?thesis by (intro conjI)
qed

lemma buildPageInfo_after:
  "buildPageInfo rt recs limit (args\<lparr>p_after := Some c\<rparr>)
     = (case buildPageInfo rt recs limit (args\<lparr>p_after := None\<rparr>) of
          Inl e \<Rightarrow> Inl e
        | Inr (r, info) \<Rightarrow>
            Inr (r, info\<lparr>hasPreviousPage :=
                          (if truthy_num (p_last args) then hasPreviousPage info else c \<noteq> [])\<rparr>))"
  unfolding buildPageInfo_def Let_def
  by (simp add: truthy_str_def split: sum.splits)

lemma select_params_ignored:
  "\<not> truthy (decodeCursor rt c) \<Longrightarrow> select_params rt ps ws (pagination\<lparr>p_after := Some c\<rparr>) = ps"
  by (simp add: select_params_def Let_def)

lemma select_params_none: "select_params rt ps ws (pagination\<lparr>p_after := None\<rparr>) = ps"
  by (simp add: select_params_def)

lemma pagination_clause_after:
  "buildPaginationClause (pagination\<lparr>p_after := a\<rparr>) = buildPaginationClause pagination"
  by (simp add: buildPaginationClause_def split: option.splits)

lemma executeSelect_ignores_cursor:
  assumes "\<not> truthy (decodeCursor rt c)"
  shows "executeSelect rt lk d tableName ws fltr orderBy (pagination\<lparr>p_after := Some c\<rparr>)
     = ignore_cursor pagination c
         (executeSelect rt lk d tableName ws fltr orderBy (pagination\<lparr>p_after := None\<rparr>))"
  unfolding executeSelect_def Let_def select_params_ignored [OF assms] select_params_none
    pagination_clause_after buildPageInfo_after ignore_cursor_def
  by (simp split: sum.splits prod.splits)

text \<open>
  Claim C10, amended: a cursor whose base64 or JSON decoding fails decodes to \<open>null\<close>, and a
  read with an \<open>after\<close> cursor that decodes to a falsy value raises nothing of its own: it
  returns what the read without the cursor returns, except that \<open>hasPreviousPage\<close> is true
  for a non-empty cursor string when \<open>last\<close> is not set.
\<close>

theorem C10_undecodable_cursor_ignored:
  "(rt_atob rt c = None \<or> (\<exists>s. rt_atob rt c = Some s \<and> rt_parse rt s = None)
      \<longrightarrow> decodeCursor rt c = JNull)
   \<and> (\<not> truthy (decodeCursor rt c)
      \<longrightarrow> executeSelect rt lk d tableName ws fltr orderBy (pagination\<lparr>p_after := Some c\<rparr>)
          = ignore_cursor pagination c
              (executeSelect rt lk d tableName ws fltr orderBy (pagination\<lparr>p_after := None\<rparr>)))"
proof (intro conjI impI)
  assume "rt_atob rt c = None \<or> (\<exists>s. rt_atob rt c = Some s \<and> rt_parse rt s = None)"
  then show "decodeCursor rt c = JNull" by (auto simp: decodeCursor_def)
next
  assume "\<not> truthy (decodeCursor rt c)"
  then show "executeSelect rt lk d tableName ws fltr orderBy (pagination\<lparr>p_after := Some c\<rparr>)
          = ignore_cursor pagination c
              (executeSelect rt lk d tableName ws fltr orderBy (pagination\<lparr>p_after := None\<rparr>))"
    by (rule executeSelect_ignores_cursor)
qed

text \<open>
  Claim C10, amended, on the sample database with the cursor \<open>not-a-cursor\<close>.
\<close>

theorem C10_undecodable_cursor_ignored_witness:
  "rt_atob sample_rt ''not-a-cursor'' = None
   \<and> decodeCursor sample_rt ''not-a-cursor'' = JNull
   \<and> executeSelect sample_rt sqlite_like sample_db ''task'' ''T1'' None None
        (first_two\<lparr>p_after := Some ''not-a-cursor''\<rparr>)
     = ignore_cursor first_two ''not-a-cursor''
         (executeSelect sample_rt sqlite_like sample_db ''task'' ''T1'' None None
            (first_two\<lparr>p_after := None\<rparr>))"
proof -
  have a: "rt_atob sample_rt ''not-a-cursor'' = None" by code_simp
  note t = C10_undecodable_cursor_ignored [where rt = sample_rt and c = "''not-a-cursor''"
      and lk = sqlite_like and d = sample_db and tableName = "''task''" and ws = "''T1''"
      and fltr = None and orderBy = None and pagination = first_two]
  from t a have b: "decodeCursor sample_rt ''not-a-cursor'' = JNull" by blast
  then have "\<not> truthy (decodeCursor sample_rt ''not-a-cursor'')" by simp
  with t have "executeSelect sample_rt sqlite_like sample_db ''task'' ''T1'' None None
        (first_two\<lparr>p_after := Some ''not-a-cursor''\<rparr>)
     = ignore_cursor first_two ''not-a-cursor''
         (executeSelect sample_rt sqlite_like sample_db ''task'' ''T1'' None None
            (first_two\<lparr>p_after := None\<rparr>))" by blast
  with a b show ?thesis by (intro conjI)
qed

section \<open>Bound values and escaping\<close>























end
